theory Spec2Isabelle
  imports Complex_Main "HOL-Library.Log_Nat"
begin

section \<open>Data model (types.ts)\<close>

text \<open>
  The interfaces of \<^verbatim>\<open>types.ts\<close> as records. A JavaScript \<^verbatim>\<open>number\<close> is a
  \<^typ>\<open>real\<close>; the values NaN and Infinity are outside the model. The allocation engine
  is modelled in exact arithmetic: its sums, products and quotients are not rounded. The
  dividend recorder is modelled in the arithmetic of the code, with every product and
  difference rounded to the nearest IEEE double (section on JavaScript numbers below).
  Field names carry a prefix of their interface, since several interfaces share
  \<^verbatim>\<open>id\<close>, \<^verbatim>\<open>date\<close>, \<^verbatim>\<open>amount\<close> and \<^verbatim>\<open>partnerId\<close>.

  The \<^verbatim>\<open>distributions\<close> field is declared as a required array on both \<^verbatim>\<open>Payment\<close> and
  \<^verbatim>\<open>Expense\<close>, but the ledger is read back from \<^verbatim>\<open>localStorage\<close> and from imported files
  without validation, and the engine itself tests \<^verbatim>\<open>!exp.distributions\<close>. The field is
  therefore an \<open>option\<close>: \<open>None\<close> is the absent (\<^verbatim>\<open>undefined\<close>) list.
\<close>

datatype ProjectType = Construction | Electrical

datatype ProjectStatus = Active | Completed

record Partner =
  partner_id :: string
  partner_name :: string
  partner_role :: string

record Project =
  project_id :: string
  project_name :: string
  project_description :: string
  project_type :: ProjectType
  project_status :: ProjectStatus
  project_createdAt :: string

record Distribution =
  dist_partnerId :: string
  dist_amount :: real

record Payment =
  pay_id :: string
  pay_projectId :: string
  pay_date :: string
  pay_description :: string
  pay_totalAmount :: real
  pay_distributions :: "Distribution list option"

record Expense =
  exp_id :: string
  exp_date :: string
  exp_description :: string
  exp_amount :: real
  exp_category :: string
  exp_distributions :: "Distribution list option"

record DividendPayout =
  div_id :: string
  div_partnerId :: string
  div_date :: string
  div_grossAmount :: real
  div_taxAmount :: real
  div_netReceived :: real

record AppState =
  projects :: "Project list"
  payments :: "Payment list"
  expenses :: "Expense list"
  dividends :: "DividendPayout list"

record FinancialSummary =
  totalRevenue :: real
  totalExpenses :: real
  taxableProfit :: real
  corporateTax :: real
  netProfit :: real

record PartnerFinancials =
  partnerId :: string
  pf_name :: string
  revenue :: real
  expenseShare :: real
  taxableBase :: real
  corporateTaxShare :: real
  netProfitShare :: real
  dividendsTakenGross :: real
  dividendTaxPaid :: real
  balance :: real

text \<open>The object returned by \<^verbatim>\<open>calculateFinancials\<close>.\<close>

record Financials =
  summary :: FinancialSummary
  partnerStats :: "PartnerFinancials list"

text \<open>
  The only exception the engine can raise: calling \<^verbatim>\<open>find\<close> on an absent
  \<^verbatim>\<open>distributions\<close> list of a payment.
\<close>

datatype jsError = TypeError

section \<open>JavaScript numbers\<close>

text \<open>
  A finite \<^verbatim>\<open>number\<close> is an IEEE 754 binary64 value, and each arithmetic operation
  returns the double nearest to the exact result, ties going to the even significand.
  \<open>binade x\<close> is the exponent \<open>e\<close> with \<open>2^e \<le> |x| < 2^(e+1)\<close>, and \<open>double x\<close> rounds
  \<open>x\<close> to 53 significant bits (lemmas \<open>binade_bounds\<close> and \<open>double_close\<close> below).
  Overflow and subnormal numbers are not modelled: the model is binary64 for results of
  magnitude between \<open>2^-1022\<close> and \<open>2^1024\<close>, and for 0.
\<close>

definition roundEven :: "real \<Rightarrow> int" where
  "roundEven y =
     (let f = \<lfloor>y\<rfloor>; r = y - of_int f
      in if r < 1 / 2 then f else if 1 / 2 < r then f + 1 else if even f then f else f + 1)"

definition binade :: "real \<Rightarrow> int" where
  "binade x =
     (if 1 \<le> \<bar>x\<bar> then bitlen \<lfloor>\<bar>x\<bar>\<rfloor> - 1 else - bitlen (\<lceil>1 / \<bar>x\<bar>\<rceil> - 1))"

definition double :: "real \<Rightarrow> real" where
  "double x =
     (if x = 0 then 0
      else (let ulp = 2 powi (binade x - 52) in of_int (roundEven (x / ulp)) * ulp))"

text \<open>The operators \<^verbatim>\<open>*\<close>, \<^verbatim>\<open>-\<close> and \<^verbatim>\<open>+\<close> on doubles.\<close>

definition jsMul :: "real \<Rightarrow> real \<Rightarrow> real" where
  "jsMul a b = double (a * b)"

definition jsSub :: "real \<Rightarrow> real \<Rightarrow> real" where
  "jsSub a b = double (a - b)"


section \<open>Constants (constants.ts)\<close>

text \<open>The names and roles are Cyrillic; they are given as their UTF-8 bytes.\<close>

definition PARTNERS :: "Partner list" where
  "PARTNERS =
    [\<lparr>partner_id = ''p1'',
      partner_name = [CHR 0xD0, CHR 0x9F, CHR 0xD0, CHR 0xBB, CHR 0xD0, CHR 0xB0, CHR 0xD0,
        CHR 0xBC, CHR 0xD0, CHR 0xB5, CHR 0xD0, CHR 0xBD, CHR 0x20, CHR 0xD0, CHR 0x94,
        CHR 0xD0, CHR 0xB8, CHR 0xD0, CHR 0xBC, CHR 0xD0, CHR 0xBE, CHR 0xD0, CHR 0xB2],
      partner_role = [CHR 0xD0, CHR 0xA3, CHR 0xD0, CHR 0xBF, CHR 0xD1, CHR 0x80, CHR 0xD0,
        CHR 0xB0, CHR 0xD0, CHR 0xB2, CHR 0xD0, CHR 0xB8, CHR 0xD1, CHR 0x82, CHR 0xD0,
        CHR 0xB5, CHR 0xD0, CHR 0xBB]\<rparr>,
     \<lparr>partner_id = ''p2'',
      partner_name = [CHR 0xD0, CHR 0xA1, CHR 0xD0, CHR 0xB2, CHR 0xD0, CHR 0xB5, CHR 0xD1,
        CHR 0x82, CHR 0xD0, CHR 0xBB, CHR 0xD0, CHR 0xBE, CHR 0xD0, CHR 0xB7, CHR 0xD0,
        CHR 0xB0, CHR 0xD1, CHR 0x80, CHR 0x20, CHR 0xD0, CHR 0x94, CHR 0xD0, CHR 0xB8,
        CHR 0xD0, CHR 0xBC, CHR 0xD0, CHR 0xBE, CHR 0xD0, CHR 0xB2],
      partner_role = [CHR 0xD0, CHR 0x9A, CHR 0xD0, CHR 0xBE, CHR 0xD0, CHR 0xBD, CHR 0xD1,
        CHR 0x81, CHR 0xD1, CHR 0x82, CHR 0xD1, CHR 0x80, CHR 0xD1, CHR 0x83, CHR 0xD0,
        CHR 0xBA, CHR 0xD1, CHR 0x82, CHR 0xD0, CHR 0xBE, CHR 0xD1, CHR 0x80]\<rparr>,
     \<lparr>partner_id = ''p3'',
      partner_name = [CHR 0xD0, CHR 0x94, CHR 0xD0, CHR 0xB8, CHR 0xD0, CHR 0xBC, CHR 0xD0,
        CHR 0xBE, CHR 0x20, CHR 0xD0, CHR 0x94, CHR 0xD0, CHR 0xB8, CHR 0xD0, CHR 0xBC,
        CHR 0xD0, CHR 0xBE, CHR 0xD0, CHR 0xB2],
      partner_role = [CHR 0xD0, CHR 0x95, CHR 0xD0, CHR 0xBB, CHR 0xD0, CHR 0xB5, CHR 0xD0,
        CHR 0xBA, CHR 0xD1, CHR 0x82, CHR 0xD1, CHR 0x80, CHR 0xD0, CHR 0xBE, CHR 0x20,
        CHR 0xD0, CHR 0xBF, CHR 0xD1, CHR 0x80, CHR 0xD0, CHR 0xBE, CHR 0xD0, CHR 0xB5,
        CHR 0xD0, CHR 0xBA, CHR 0xD1, CHR 0x82, CHR 0xD0, CHR 0xB0, CHR 0xD0, CHR 0xBD,
        CHR 0xD1, CHR 0x82]\<rparr>]"

definition TAX_RATE :: real where
  "TAX_RATE = 10 / 100"

text \<open>The literal \<^verbatim>\<open>0.05\<close> denotes the double nearest to 5/100.\<close>

definition DIVIDEND_TAX_RATE :: real where
  "DIVIDEND_TAX_RATE = double (5 / 100)"

definition INITIAL_STATE :: AppState where
  "INITIAL_STATE = \<lparr>projects = [], payments = [], expenses = [], dividends = []\<rparr>"

section \<open>The allocation engine (calculateFinancials in App.tsx)\<close>

text \<open>
  Both versions of \<^verbatim>\<open>App.tsx\<close> hold the same engine; the later one also returns a
  monthly aggregation for a chart, which is not modelled. The source reads the roster and
  the corporate rate from the module constants \<^verbatim>\<open>PARTNERS\<close> and \<^verbatim>\<open>TAX_RATE\<close>; here the
  body is written once over a roster and a rate (\<open>calculateFinancialsFor\<close>), and
  \<open>calculateFinancials\<close> is that body at the two constants.
\<close>

text \<open>\<^verbatim>\<open>state.payments.reduce((sum, p) => sum + p.totalAmount, 0)\<close>\<close>

definition sumTotalAmount :: "Payment list \<Rightarrow> real" where
  "sumTotalAmount ps = foldl (\<lambda>sum p. sum + pay_totalAmount p) 0 ps"

text \<open>\<^verbatim>\<open>state.expenses.reduce((sum, e) => sum + e.amount, 0)\<close>\<close>

definition sumAmount :: "Expense list \<Rightarrow> real" where
  "sumAmount es = foldl (\<lambda>sum e. sum + exp_amount e) 0 es"

text \<open>\<^verbatim>\<open>partnerExpenseMap[k] || 0\<close>: an absent entry, and the entry 0, read as 0.\<close>

definition orZero :: "real option \<Rightarrow> real" where
  "orZero v = (case v of None \<Rightarrow> 0 | Some x \<Rightarrow> x)"

text \<open>
  \<^verbatim>\<open>partnerExpenseMap\<close> is a \<^verbatim>\<open>Record<string, number>\<close>, modelled as a map from ids to
  numbers. The properties a JavaScript object inherits (\<^verbatim>\<open>constructor\<close>,
  \<^verbatim>\<open>toString\<close>, ...) are not modelled; no id of \<open>PARTNERS\<close> names one.

  \<^verbatim>\<open>PARTNERS.forEach(p => partnerExpenseMap[p.id] = 0)\<close> on the empty object:
\<close>

definition initExpenseMap :: "Partner list \<Rightarrow> (string \<rightharpoonup> real)" where
  "initExpenseMap roster = foldl (\<lambda>m p. m(partner_id p \<mapsto> 0)) Map.empty roster"

text \<open>
  \<^verbatim>\<open>PARTNERS.forEach(p => partnerExpenseMap[p.id] += share)\<close>. The entry read by
  \<^verbatim>\<open>+=\<close> exists, because every roster id was initialised
  (lemma \<open>partnerExpenseMap_roster_defined\<close> below).
\<close>

definition splitEqually :: "Partner list \<Rightarrow> real \<Rightarrow> (string \<rightharpoonup> real) \<Rightarrow> (string \<rightharpoonup> real)" where
  "splitEqually roster share m =
     foldl (\<lambda>m p. m(partner_id p \<mapsto> the (m (partner_id p)) + share)) m roster"

text \<open>
  \<^verbatim>\<open>exp.distributions.forEach(d => { partnerExpenseMap[d.partnerId] =
  (partnerExpenseMap[d.partnerId] || 0) + d.amount; })\<close>
\<close>

definition addDistributions :: "Distribution list \<Rightarrow> (string \<rightharpoonup> real) \<Rightarrow> (string \<rightharpoonup> real)" where
  "addDistributions ds m =
     foldl (\<lambda>m d. m(dist_partnerId d \<mapsto> orZero (m (dist_partnerId d)) + dist_amount d)) m ds"

text \<open>The test \<^verbatim>\<open>!exp.distributions || exp.distributions.length === 0\<close>.\<close>

definition noDistributions :: "Expense \<Rightarrow> bool" where
  "noDistributions e =
     (case exp_distributions e of None \<Rightarrow> True | Some ds \<Rightarrow> length ds = 0)"

text \<open>
  The body of \<^verbatim>\<open>state.expenses.forEach\<close>. With an empty roster the quotient
  \<^verbatim>\<open>exp.amount / PARTNERS.length\<close> is Infinity or NaN in JavaScript and 0 in HOL; in both
  it is bound to \<open>share\<close> and then used by no iteration. In the \<^verbatim>\<open>else\<close> branch the
  list is present and not empty.
\<close>

definition expenseStep :: "Partner list \<Rightarrow> (string \<rightharpoonup> real) \<Rightarrow> Expense \<Rightarrow> (string \<rightharpoonup> real)" where
  "expenseStep roster m e =
     (if noDistributions e then
        (let share = exp_amount e / real (length roster) in splitEqually roster share m)
      else addDistributions (the (exp_distributions e)) m)"

definition partnerExpenseMap :: "Partner list \<Rightarrow> Expense list \<Rightarrow> (string \<rightharpoonup> real)" where
  "partnerExpenseMap roster es = foldl (expenseStep roster) (initExpenseMap roster) es"

text \<open>
  \<^verbatim>\<open>const dist = ds.find(d => d.partnerId === partner.id); dist ? dist.amount : 0\<close>
\<close>

definition distAmountFor :: "string \<Rightarrow> Distribution list \<Rightarrow> real" where
  "distAmountFor pid ds =
     (case find (\<lambda>d. dist_partnerId d = pid) ds of None \<Rightarrow> 0 | Some found \<Rightarrow> dist_amount found)"

text \<open>
  The revenue \<^verbatim>\<open>reduce\<close> of one partner over the payments, with its accumulator.
  \<^verbatim>\<open>p.distributions.find\<close> on an absent list throws a TypeError, which ends the whole call.
\<close>

fun revenueReduce :: "string \<Rightarrow> real \<Rightarrow> Payment list \<Rightarrow> jsError + real" where
  "revenueReduce pid acc [] = Inr acc"
| "revenueReduce pid acc (p # rest) =
     (case pay_distributions p of
        None \<Rightarrow> Inl TypeError
      | Some ds \<Rightarrow> revenueReduce pid (acc + distAmountFor pid ds) rest)"

text \<open>\<^verbatim>\<open>state.dividends.filter(d => d.partnerId === partner.id).reduce(...)\<close>\<close>

definition dividendsTakenOf :: "string \<Rightarrow> DividendPayout list \<Rightarrow> real" where
  "dividendsTakenOf pid ds =
     foldl (\<lambda>sum d. sum + div_grossAmount d) 0 (filter (\<lambda>d. div_partnerId d = pid) ds)"

definition dividendTaxPaidOf :: "string \<Rightarrow> DividendPayout list \<Rightarrow> real" where
  "dividendTaxPaidOf pid ds =
     foldl (\<lambda>sum d. sum + div_taxAmount d) 0 (filter (\<lambda>d. div_partnerId d = pid) ds)"

text \<open>
  The callback of \<^verbatim>\<open>PARTNERS.map\<close>, in two parts. \<open>partnerStatement\<close> is everything
  after the revenue \<^verbatim>\<open>reduce\<close>: steps 2 to 7 and the returned object, given the revenue.
\<close>

definition partnerStatement ::
  "real \<Rightarrow> AppState \<Rightarrow> (string \<rightharpoonup> real) \<Rightarrow> Partner \<Rightarrow> real \<Rightarrow> PartnerFinancials" where
  "partnerStatement rate st emap partner rv =
     (let share = orZero (emap (partner_id partner));
          base = rv - share;
          taxShare = (if base > 0 then base * rate else 0);
          netShare = base - taxShare;
          dividendsTaken = dividendsTakenOf (partner_id partner) (dividends st);
          taxPaid = dividendTaxPaidOf (partner_id partner) (dividends st);
          bal = netShare - dividendsTaken
      in \<lparr>partnerId = partner_id partner,
          pf_name = partner_name partner,
          revenue = rv,
          expenseShare = share,
          taxableBase = base,
          corporateTaxShare = taxShare,
          netProfitShare = netShare,
          dividendsTakenGross = dividendsTaken,
          dividendTaxPaid = taxPaid,
          balance = bal\<rparr>)"

definition partnerRow ::
  "real \<Rightarrow> AppState \<Rightarrow> (string \<rightharpoonup> real) \<Rightarrow> Partner \<Rightarrow> jsError + PartnerFinancials" where
  "partnerRow rate st emap partner =
     (case revenueReduce (partner_id partner) 0 (payments st) of
        Inl err \<Rightarrow> Inl err
      | Inr rv \<Rightarrow> Inr (partnerStatement rate st emap partner rv))"

text \<open>\<^verbatim>\<open>PARTNERS.map(callback)\<close>, in roster order; the first exception ends it.\<close>

fun mapPartners ::
  "(Partner \<Rightarrow> jsError + PartnerFinancials) \<Rightarrow> Partner list \<Rightarrow> jsError + PartnerFinancials list" where
  "mapPartners f [] = Inr []"
| "mapPartners f (p # ps) =
     (case f p of
        Inl err \<Rightarrow> Inl err
      | Inr row \<Rightarrow>
          (case mapPartners f ps of
             Inl err \<Rightarrow> Inl err
           | Inr rows \<Rightarrow> Inr (row # rows)))"

definition calculateFinancialsFor :: "Partner list \<Rightarrow> real \<Rightarrow> AppState \<Rightarrow> jsError + Financials" where
  "calculateFinancialsFor roster rate st =
     (let revenueTotal = sumTotalAmount (payments st);
          expensesTotal = sumAmount (expenses st);
          profit = max 0 (revenueTotal - expensesTotal);
          tax = profit * rate;
          net = revenueTotal - expensesTotal - tax;
          emap = partnerExpenseMap roster (expenses st)
      in case mapPartners (partnerRow rate st emap) roster of
           Inl err \<Rightarrow> Inl err
         | Inr rows \<Rightarrow>
             Inr \<lparr>summary = \<lparr>totalRevenue = revenueTotal,
                              totalExpenses = expensesTotal,
                              taxableProfit = profit,
                              corporateTax = tax,
                              netProfit = net\<rparr>,
                  partnerStats = rows\<rparr>)"

definition calculateFinancials :: "AppState \<Rightarrow> jsError + Financials" where
  "calculateFinancials st = calculateFinancialsFor PARTNERS TAX_RATE st"

section \<open>The ledger handlers (addExpense, addPayment, addDividend in App.tsx)\<close>

text \<open>
  Each handler builds one record and appends it to its stream of the ledger. The id is
  \<^verbatim>\<open>Date.now().toString()\<close>; the clock reading is the parameter \<open>now\<close>. The handlers
  receive the distributions as an array, so the records they build carry a list.
\<close>

definition addExpense ::
  "string \<Rightarrow> string \<Rightarrow> real \<Rightarrow> string \<Rightarrow> string \<Rightarrow> Distribution list \<Rightarrow> AppState \<Rightarrow> AppState" where
  "addExpense now desc amount date category distributions prev =
     (let newExpense = \<lparr>exp_id = now,
                        exp_date = date,
                        exp_description = desc,
                        exp_amount = amount,
                        exp_category = category,
                        exp_distributions = Some distributions\<rparr>
      in prev\<lparr>expenses := expenses prev @ [newExpense]\<rparr>)"

definition addPayment ::
  "string \<Rightarrow> string \<Rightarrow> real \<Rightarrow> string \<Rightarrow> string \<Rightarrow> Distribution list \<Rightarrow> AppState \<Rightarrow> AppState" where
  "addPayment now projectId totalAmount date desc dists prev =
     (let newPayment = \<lparr>pay_id = now,
                        pay_projectId = projectId,
                        pay_date = date,
                        pay_description = desc,
                        pay_totalAmount = totalAmount,
                        pay_distributions = Some dists\<rparr>
      in prev\<lparr>payments := payments prev @ [newPayment]\<rparr>)"

text \<open>
  \<^verbatim>\<open>addDividend\<close> stamps the tax and the net amount on the new payout:
  \<^verbatim>\<open>const tax = grossAmount * DIVIDEND_TAX_RATE; const net = grossAmount - tax;\<close>
  in the arithmetic of doubles.
\<close>

definition addDividend :: "string \<Rightarrow> string \<Rightarrow> real \<Rightarrow> string \<Rightarrow> AppState \<Rightarrow> AppState" where
  "addDividend now pid grossAmount date prev =
     (let tax = jsMul grossAmount DIVIDEND_TAX_RATE;
          net = jsSub grossAmount tax;
          newDiv = \<lparr>div_id = now,
                    div_partnerId = pid,
                    div_date = date,
                    div_grossAmount = grossAmount,
                    div_taxAmount = tax,
                    div_netReceived = net\<rparr>
      in prev\<lparr>dividends := dividends prev @ [newDiv]\<rparr>)"

section \<open>Notions used to state the properties\<close>

text \<open>
  A ledger is well-typed for \<^verbatim>\<open>types.ts\<close> when every payment carries its
  \<^verbatim>\<open>distributions\<close> array (which may be empty).
\<close>

definition allListed :: "Payment list \<Rightarrow> bool" where
  "allListed ps = list_all (\<lambda>p. pay_distributions p \<noteq> None) ps"

text \<open>The sum of the amounts that a distributions list gives to the partner id \<open>k\<close>.\<close>

definition listedFor :: "string \<Rightarrow> Distribution list \<Rightarrow> real" where
  "listedFor k ds = sum_list (map dist_amount (filter (\<lambda>d. dist_partnerId d = k) ds))"

text \<open>What one expense adds to the accumulator of the roster partner with id \<open>k\<close>.\<close>

definition expenseContribution :: "Partner list \<Rightarrow> string \<Rightarrow> Expense \<Rightarrow> real" where
  "expenseContribution roster k e =
     (if noDistributions e then exp_amount e / real (length roster)
      else listedFor k (the (exp_distributions e)))"

text \<open>What the revenue \<^verbatim>\<open>reduce\<close> of the partner id \<open>k\<close> returns on listed payments.\<close>

definition revenueOf :: "string \<Rightarrow> Payment list \<Rightarrow> real" where
  "revenueOf k ps = sum_list (map (\<lambda>p. distAmountFor k (the (pay_distributions p))) ps)"

text \<open>The entries of a distributions list that name a partner of the roster.\<close>

definition rosterEntries :: "Partner list \<Rightarrow> Distribution list \<Rightarrow> Distribution list" where
  "rosterEntries roster ds = filter (\<lambda>d. dist_partnerId d \<in> set (map partner_id roster)) ds"

text \<open>The company summary that the engine returns.\<close>

definition companySummary :: "real \<Rightarrow> AppState \<Rightarrow> FinancialSummary" where
  "companySummary rate st =
     \<lparr>totalRevenue = sumTotalAmount (payments st),
      totalExpenses = sumAmount (expenses st),
      taxableProfit = max 0 (sumTotalAmount (payments st) - sumAmount (expenses st)),
      corporateTax = max 0 (sumTotalAmount (payments st) - sumAmount (expenses st)) * rate,
      netProfit = sumTotalAmount (payments st) - sumAmount (expenses st)
                  - max 0 (sumTotalAmount (payments st) - sumAmount (expenses st)) * rate\<rparr>"

section \<open>Example ledgers\<close>

text \<open>Revenue 50, all of it attributed to p1, and one expense of 100 with no distributions.\<close>

definition lossLedger :: AppState where
  "lossLedger =
     addExpense ''2'' ''rent'' 100 ''2024-01-02'' ''rent'' []
       (addPayment ''1'' ''a'' 50 ''2024-01-01'' ''invoice''
          [\<lparr>dist_partnerId = ''p1'', dist_amount = 50\<rparr>] INITIAL_STATE)"

text \<open>
  p1 is attributed 10000/9, which leaves a net profit share of 1000 at the rate of 10%, and
  then draws a dividend of 1200.
\<close>

definition drawdownLedger :: AppState where
  "drawdownLedger =
     addDividend ''2'' ''p1'' 1200 ''2024-02-01''
       (addPayment ''1'' ''a'' (10000 / 9) ''2024-01-01'' ''invoice''
          [\<lparr>dist_partnerId = ''p1'', dist_amount = 10000 / 9\<rparr>] INITIAL_STATE)"

text \<open>
  A payment and an expense whose distributions name \<^verbatim>\<open>p9\<close>, which is not in the roster.
\<close>

definition foreignLedger :: AppState where
  "foreignLedger =
     addExpense ''2'' ''tools'' 60 ''2024-01-02'' ''tools''
         [\<lparr>dist_partnerId = ''p9'', dist_amount = 60\<rparr>]
       (addPayment ''1'' ''a'' 100 ''2024-01-01'' ''invoice''
          [\<lparr>dist_partnerId = ''p9'', dist_amount = 40\<rparr>,
           \<lparr>dist_partnerId = ''p1'', dist_amount = 60\<rparr>] INITIAL_STATE)"

text \<open>
  Revenue 50, attributed to p1, and one expense of 100 listed to p2: the company makes a
  loss of 50 while p1 has a positive and p2 a negative taxable base.
\<close>

definition clampLedger :: AppState where
  "clampLedger =
     addExpense ''2'' ''rent'' 100 ''2024-01-02'' ''rent''
         [\<lparr>dist_partnerId = ''p2'', dist_amount = 100\<rparr>]
       (addPayment ''1'' ''a'' 50 ''2024-01-01'' ''invoice''
          [\<lparr>dist_partnerId = ''p1'', dist_amount = 50\<rparr>] INITIAL_STATE)"

text \<open>A ledger whose one payment has no distributions list, as an imported file can hold it.\<close>

definition unlistedLedger :: AppState where
  "unlistedLedger =
     INITIAL_STATE\<lparr>payments :=
       [\<lparr>pay_id = ''1'', pay_projectId = ''a'', pay_date = ''2024-01-01'',
         pay_description = ''invoice'', pay_totalAmount = 100,
         pay_distributions = None\<rparr>]\<rparr>"

section \<open>Auxiliary lemmas\<close>

lemmas engine_defs =
  calculateFinancials_def calculateFinancialsFor_def partnerRow_def partnerStatement_def
  partnerExpenseMap_def expenseStep_def noDistributions_def splitEqually_def
  addDistributions_def initExpenseMap_def orZero_def distAmountFor_def
  dividendsTakenOf_def dividendTaxPaidOf_def sumTotalAmount_def sumAmount_def
  PARTNERS_def TAX_RATE_def INITIAL_STATE_def addExpense_def addPayment_def addDividend_def
  DIVIDEND_TAX_RATE_def allListed_def Let_def

text \<open>
  The rounding model: \<open>binade\<close> is the binary exponent, and \<open>double x\<close> is a multiple of
  the unit in the last place that lies within half a unit of \<open>x\<close>.
\<close>

lemma powi_nonneg: "0 \<le> k \<Longrightarrow> (2::real) powi k = 2 ^ nat k"
  by (simp add: power_int_def)

lemma powi_neg: "0 \<le> k \<Longrightarrow> (2::real) powi (- k) = 1 / 2 ^ nat k"
  by (simp add: power_int_minus field_simps powi_nonneg)

lemma binade_bounds:
  assumes "x \<noteq> 0"
  shows "2 powi binade x \<le> \<bar>x\<bar> \<and> \<bar>x\<bar> < 2 powi (binade x + 1)"
proof (cases "1 \<le> \<bar>x\<bar>")
  case True
  define n where "n = \<lfloor>\<bar>x\<bar>\<rfloor>"
  have npos: "0 < n" using True by (simp add: n_def)
  have b: "2 ^ nat (bitlen n - 1) \<le> n" "n < 2 ^ nat (bitlen n)"
    using bitlen_bounds[OF npos] by simp_all
  have b1: "1 \<le> bitlen n" using npos bitlen_eq_zero_iff[of n] bitlen_nonneg[of n] by linarith
  have lo: "real_of_int n \<le> \<bar>x\<bar>" and hi: "\<bar>x\<bar> < real_of_int n + 1"
    by (simp_all add: n_def)
  have "real_of_int (2 ^ nat (bitlen n - 1)) \<le> real_of_int n"
    using b(1) by (simp only: of_int_le_iff)
  moreover have "real_of_int (2 ^ nat (bitlen n - 1)) = 2 ^ nat (bitlen n - 1)"
    by simp
  ultimately have "(2::real) ^ nat (bitlen n - 1) \<le> \<bar>x\<bar>"
    using lo by linarith
  moreover have "(2::real) powi (bitlen n - 1) = 2 ^ nat (bitlen n - 1)"
    using b1 by (simp add: powi_nonneg)
  ultimately have l: "2 powi (bitlen n - 1) \<le> \<bar>x\<bar>"
    by simp
  have "n + 1 \<le> 2 ^ nat (bitlen n)" using b(2) by simp
  then have "real_of_int (n + 1) \<le> real_of_int (2 ^ nat (bitlen n))"
    by (simp only: of_int_le_iff)
  moreover have "real_of_int (2 ^ nat (bitlen n)) = 2 ^ nat (bitlen n)"
    and "real_of_int (n + 1) = real_of_int n + 1"
    by simp_all
  ultimately have "real_of_int n + 1 \<le> 2 ^ nat (bitlen n)" by linarith
  then have h: "\<bar>x\<bar> < 2 powi (bitlen n)"
    using hi bitlen_nonneg[of n] by (simp add: powi_nonneg)
  show ?thesis using True l h by (simp add: binade_def n_def)
next
  case False
  define y where "y = 1 / \<bar>x\<bar>"
  define m where "m = \<lceil>y\<rceil> - 1"
  have xpos: "0 < \<bar>x\<bar>" using assms by simp
  have y1: "1 < y" using False xpos by (simp add: y_def)
  have mpos: "0 < m" using y1 by (simp add: m_def)
  have lo: "real_of_int m < y" and hi: "y \<le> real_of_int m + 1"
    by (simp_all add: m_def) linarith+
  have b: "2 ^ nat (bitlen m - 1) \<le> m" "m < 2 ^ nat (bitlen m)"
    using bitlen_bounds[OF mpos] by simp_all
  have b1: "1 \<le> bitlen m" using mpos bitlen_eq_zero_iff[of m] bitlen_nonneg[of m] by linarith
  have "m + 1 \<le> 2 ^ nat (bitlen m)" using b(2) by simp
  then have "real_of_int (m + 1) \<le> real_of_int (2 ^ nat (bitlen m))"
    by (simp only: of_int_le_iff)
  moreover have "real_of_int (2 ^ nat (bitlen m)) = 2 ^ nat (bitlen m)"
    and "real_of_int (m + 1) = real_of_int m + 1"
    by simp_all
  ultimately have "y \<le> 2 ^ nat (bitlen m)" using hi by linarith
  then have "1 / 2 ^ nat (bitlen m) \<le> \<bar>x\<bar>"
    using xpos by (simp add: y_def field_simps)
  then have l: "2 powi (- bitlen m) \<le> \<bar>x\<bar>"
    using bitlen_nonneg[of m] by (simp add: powi_neg)
  have "real_of_int (2 ^ nat (bitlen m - 1)) \<le> real_of_int m"
    using b(1) by (simp only: of_int_le_iff)
  moreover have "real_of_int (2 ^ nat (bitlen m - 1)) = 2 ^ nat (bitlen m - 1)"
    by simp
  ultimately have "2 ^ nat (bitlen m - 1) < y" using lo by linarith
  then have "\<bar>x\<bar> < 1 / 2 ^ nat (bitlen m - 1)"
    using xpos by (simp add: y_def field_simps)
  moreover have "(2::real) powi (- bitlen m + 1) = 1 / 2 ^ nat (bitlen m - 1)"
    using powi_neg[of "bitlen m - 1"] b1 by simp
  ultimately have h: "\<bar>x\<bar> < 2 powi (- bitlen m + 1)" by simp
  show ?thesis using False l h by (simp add: binade_def m_def y_def)
qed

lemma roundEven_close: "\<bar>real_of_int (roundEven y) - y\<bar> \<le> 1 / 2"
  by (auto simp: roundEven_def Let_def)

lemma double_close:
  "\<bar>double x - x\<bar> \<le> 2 powi (binade x - 53)"
proof (cases "x = 0")
  case True
  then show ?thesis by (simp add: double_def)
next
  case False
  define u :: real where "u = 2 powi (binade x - 52)"
  have upos: "0 < u" by (simp add: u_def)
  have "double x - x = (real_of_int (roundEven (x / u)) - x / u) * u"
    using False upos by (simp add: double_def u_def Let_def field_simps)
  then have "\<bar>double x - x\<bar> = \<bar>real_of_int (roundEven (x / u)) - x / u\<bar> * u"
    using upos by (simp add: abs_mult)
  also have "\<dots> \<le> (1 / 2) * u"
    using roundEven_close[of "x / u"] upos by (intro mult_right_mono) simp_all
  also have "(1 / 2) * u = 2 powi (binade x - 53)"
    by (simp add: u_def power_int_diff)
  finally show ?thesis .
qed

lemma double_known_values:
  "double (1 / 10) = 3602879701896397 / 2 ^ 55"
  "double (5 / 100) = 3602879701896397 / 2 ^ 56"
  "double (151 / 100) = 6800435437329449 / 2 ^ 52"
  "double 1000 = 1000"
  by code_simp+

text \<open>The engine.\<close>

lemma foldl_add_sum_list:
  "foldl (\<lambda>acc x. acc + f x) (a::real) xs = a + sum_list (map f xs)"
  by (induction xs arbitrary: a) simp_all

lemma sumTotalAmount_sum_list: "sumTotalAmount ps = sum_list (map pay_totalAmount ps)"
  by (simp add: sumTotalAmount_def foldl_add_sum_list)

lemma sumAmount_sum_list: "sumAmount es = sum_list (map exp_amount es)"
  by (simp add: sumAmount_def foldl_add_sum_list)

lemma dividendsTakenOf_sum_list:
  "dividendsTakenOf pid ds =
     sum_list (map div_grossAmount (filter (\<lambda>d. div_partnerId d = pid) ds))"
  by (simp add: dividendsTakenOf_def foldl_add_sum_list)

lemma dividendTaxPaidOf_sum_list:
  "dividendTaxPaidOf pid ds =
     sum_list (map div_taxAmount (filter (\<lambda>d. div_partnerId d = pid) ds))"
  by (simp add: dividendTaxPaidOf_def foldl_add_sum_list)

lemma foldl_init_lookup:
  "foldl (\<lambda>m p. m(partner_id p \<mapsto> (0::real))) m roster k =
     (if k \<in> set (map partner_id roster) then Some 0 else m k)"
  by (induction roster arbitrary: m) auto

lemma initExpenseMap_lookup:
  "initExpenseMap roster k = (if k \<in> set (map partner_id roster) then Some 0 else None)"
  by (simp add: initExpenseMap_def foldl_init_lookup)

lemma splitEqually_other:
  "k \<notin> set (map partner_id roster) \<Longrightarrow> splitEqually roster share m k = m k"
  unfolding splitEqually_def by (induction roster arbitrary: m) auto

lemma splitEqually_member:
  "distinct (map partner_id roster) \<Longrightarrow> k \<in> set (map partner_id roster) \<Longrightarrow> m k = Some v \<Longrightarrow>
   splitEqually roster share m k = Some (v + share)"
proof (induction roster arbitrary: m)
  case Nil
  then show ?case by simp
next
  case (Cons p roster)
  show ?case
  proof (cases "k = partner_id p")
    case True
    then have "k \<notin> set (map partner_id roster)" using Cons.prems(1) by auto
    then have "splitEqually roster share (m(partner_id p \<mapsto> the (m (partner_id p)) + share)) k
        = (m(partner_id p \<mapsto> the (m (partner_id p)) + share)) k"
      by (rule splitEqually_other)
    then show ?thesis using True Cons.prems(3) by (simp add: splitEqually_def)
  next
    case False
    have d: "distinct (map partner_id roster)" using Cons.prems(1) by simp
    have k: "k \<in> set (map partner_id roster)" using False Cons.prems(2) by auto
    have "(m(partner_id p \<mapsto> the (m (partner_id p)) + share)) k = Some v"
      using False Cons.prems(3) by simp
    with d k have "splitEqually roster share (m(partner_id p \<mapsto> the (m (partner_id p)) + share)) k
        = Some (v + share)" by (rule Cons.IH)
    then show ?thesis by (simp add: splitEqually_def)
  qed
qed

lemma addDistributions_lookup:
  "orZero (addDistributions ds m k) = orZero (m k) + listedFor k ds"
  unfolding addDistributions_def listedFor_def
  by (induction ds arbitrary: m) (auto simp: orZero_def)

lemma addDistributions_defined:
  "m k = Some v \<Longrightarrow> addDistributions ds m k = Some (v + listedFor k ds)"
  unfolding addDistributions_def listedFor_def
  by (induction ds arbitrary: m v) (auto simp: orZero_def)

lemma expenseStep_member:
  "distinct (map partner_id roster) \<Longrightarrow> k \<in> set (map partner_id roster) \<Longrightarrow> m k = Some v \<Longrightarrow>
   expenseStep roster m e k = Some (v + expenseContribution roster k e)"
  by (simp add: expenseStep_def expenseContribution_def splitEqually_member addDistributions_defined)

lemma foldl_expenseStep_member:
  "distinct (map partner_id roster) \<Longrightarrow> k \<in> set (map partner_id roster) \<Longrightarrow> m k = Some v \<Longrightarrow>
   foldl (expenseStep roster) m es k = Some (v + sum_list (map (expenseContribution roster k) es))"
proof (induction es arbitrary: m v)
  case Nil
  then show ?case by simp
next
  case (Cons e es)
  have "expenseStep roster m e k = Some (v + expenseContribution roster k e)"
    using Cons.prems by (rule expenseStep_member)
  with Cons.prems(1,2)
  have "foldl (expenseStep roster) (expenseStep roster m e) es k =
      Some (v + expenseContribution roster k e + sum_list (map (expenseContribution roster k) es))"
    by (rule Cons.IH)
  then show ?case by (simp add: add.assoc)
qed

lemma partnerExpenseMap_roster_defined:
  "distinct (map partner_id roster) \<Longrightarrow> k \<in> set (map partner_id roster) \<Longrightarrow>
   partnerExpenseMap roster es k = Some (sum_list (map (expenseContribution roster k) es))"
  using foldl_expenseStep_member[of roster k "initExpenseMap roster" 0 es]
  by (simp add: partnerExpenseMap_def initExpenseMap_lookup)

lemma revenueReduce_listed:
  "allListed ps \<Longrightarrow> revenueReduce k acc ps = Inr (acc + revenueOf k ps)"
  by (induction ps arbitrary: acc) (auto simp: allListed_def revenueOf_def)

lemma revenueReduce_absent:
  "\<not> allListed ps \<Longrightarrow> revenueReduce k acc ps = Inl TypeError"
  by (induction ps arbitrary: acc) (auto simp: allListed_def split: option.splits)

lemma partnerRow_listed:
  "allListed (payments st) \<Longrightarrow>
   partnerRow rate st emap q = Inr (partnerStatement rate st emap q (revenueOf (partner_id q) (payments st)))"
  by (simp add: partnerRow_def revenueReduce_listed)

lemma mapPartners_Inr:
  "(\<And>q. q \<in> set roster \<Longrightarrow> f q = Inr (g q)) \<Longrightarrow> mapPartners f roster = Inr (map g roster)"
  by (induction roster) simp_all

lemma calculateFinancialsFor_listed:
  assumes "allListed (payments st)"
  shows "calculateFinancialsFor roster rate st =
     Inr \<lparr>summary = companySummary rate st,
          partnerStats = map (\<lambda>q. partnerStatement rate st (partnerExpenseMap roster (expenses st)) q
                                   (revenueOf (partner_id q) (payments st))) roster\<rparr>"
proof -
  have "mapPartners (partnerRow rate st (partnerExpenseMap roster (expenses st))) roster =
      Inr (map (\<lambda>q. partnerStatement rate st (partnerExpenseMap roster (expenses st)) q
                                   (revenueOf (partner_id q) (payments st))) roster)"
    by (rule mapPartners_Inr) (simp add: partnerRow_listed assms)
  then show ?thesis by (simp add: calculateFinancialsFor_def companySummary_def Let_def)
qed

lemma calculateFinancialsFor_empty_roster:
  "calculateFinancialsFor [] rate st = Inr \<lparr>summary = companySummary rate st, partnerStats = []\<rparr>"
  by (simp add: calculateFinancialsFor_def companySummary_def Let_def)

lemma statement_fields:
  "partnerId (partnerStatement rate st emap q rv) = partner_id q"
  "pf_name (partnerStatement rate st emap q rv) = partner_name q"
  "revenue (partnerStatement rate st emap q rv) = rv"
  "expenseShare (partnerStatement rate st emap q rv) = orZero (emap (partner_id q))"
  "taxableBase (partnerStatement rate st emap q rv) = rv - orZero (emap (partner_id q))"
  "dividendsTakenGross (partnerStatement rate st emap q rv) =
     dividendsTakenOf (partner_id q) (dividends st)"
  "dividendTaxPaid (partnerStatement rate st emap q rv) =
     dividendTaxPaidOf (partner_id q) (dividends st)"
  by (simp_all add: partnerStatement_def Let_def)

lemma statement_tax_fields:
  "corporateTaxShare (partnerStatement rate st emap q rv) =
     (if taxableBase (partnerStatement rate st emap q rv) > 0
      then taxableBase (partnerStatement rate st emap q rv) * rate else 0)"
  "netProfitShare (partnerStatement rate st emap q rv) =
     taxableBase (partnerStatement rate st emap q rv)
       - corporateTaxShare (partnerStatement rate st emap q rv)"
  "balance (partnerStatement rate st emap q rv) =
     netProfitShare (partnerStatement rate st emap q rv)
       - dividendsTakenGross (partnerStatement rate st emap q rv)"
  by (simp_all add: partnerStatement_def Let_def)

lemma summary_fields:
  "totalRevenue (companySummary rate st) = sum_list (map pay_totalAmount (payments st))"
  "totalExpenses (companySummary rate st) = sum_list (map exp_amount (expenses st))"
  "taxableProfit (companySummary rate st) =
     max 0 (totalRevenue (companySummary rate st) - totalExpenses (companySummary rate st))"
  "corporateTax (companySummary rate st) = taxableProfit (companySummary rate st) * rate"
  "netProfit (companySummary rate st) =
     totalRevenue (companySummary rate st) - totalExpenses (companySummary rate st)
       - corporateTax (companySummary rate st)"
  by (simp_all add: companySummary_def sumTotalAmount_sum_list sumAmount_sum_list)

lemma expenseShare_roster:
  assumes "distinct (map partner_id roster)" and "q \<in> set roster"
  shows "expenseShare (partnerStatement rate st (partnerExpenseMap roster es) q rv) =
     sum_list (map (expenseContribution roster (partner_id q)) es)"
proof -
  have "partner_id q \<in> set (map partner_id roster)" using assms(2) by simp
  with assms(1) have "partnerExpenseMap roster es (partner_id q) =
      Some (sum_list (map (expenseContribution roster (partner_id q)) es))"
    by (rule partnerExpenseMap_roster_defined)
  then show ?thesis by (simp add: statement_fields orZero_def)
qed

lemma statement_cong:
  "dividends st' = dividends st \<Longrightarrow> orZero (emap' (partner_id q)) = orZero (emap (partner_id q)) \<Longrightarrow>
   partnerStatement rate st' emap' q rv = partnerStatement rate st emap q rv"
  by (simp add: partnerStatement_def)


lemma expenseContribution_listed:
  "exp_distributions e = Some ds \<Longrightarrow> ds \<noteq> [] \<Longrightarrow> expenseContribution roster k e = listedFor k ds"
  by (simp add: expenseContribution_def noDistributions_def)

lemma listedFor_unnamed:
  "k \<notin> set (map dist_partnerId ds) \<Longrightarrow> listedFor k ds = 0"
proof -
  assume "k \<notin> set (map dist_partnerId ds)"
  then have "filter (\<lambda>d. dist_partnerId d = k) ds = []" by (auto simp: filter_empty_conv)
  then show ?thesis by (simp add: listedFor_def)
qed

lemma find_rosterEntries:
  "k \<in> set (map partner_id roster) \<Longrightarrow>
   find (\<lambda>d. dist_partnerId d = k) (rosterEntries roster ds) = find (\<lambda>d. dist_partnerId d = k) ds"
  unfolding rosterEntries_def by (induction ds) auto

lemma distAmountFor_rosterEntries:
  "k \<in> set (map partner_id roster) \<Longrightarrow>
   distAmountFor k (rosterEntries roster ds) = distAmountFor k ds"
  by (simp add: distAmountFor_def find_rosterEntries)

lemma listedFor_rosterEntries:
  "k \<in> set (map partner_id roster) \<Longrightarrow>
   listedFor k (rosterEntries roster ds) = listedFor k ds"
proof -
  assume k: "k \<in> set (map partner_id roster)"
  have "filter (\<lambda>d. dist_partnerId d = k) (rosterEntries roster ds) =
      filter (\<lambda>d. dist_partnerId d = k) ds"
    unfolding rosterEntries_def filter_filter
    by (rule filter_cong) (use k in auto)
  then show ?thesis by (simp add: listedFor_def)
qed

section \<open>Company tax and partner tax\<close>

text \<open>
  C1. On every ledger whose payments carry their list, for any roster and corporate rate,
  the engine returns a result with one statement per roster partner, in roster order, in
  which the company figure alone is clamped. For the company,
  \<open>totalRevenue\<close> and \<open>totalExpenses\<close> are the sums of the parent amounts,
  \<open>taxableProfit = max 0 (totalRevenue - totalExpenses)\<close>,
  \<open>corporateTax = taxableProfit * rate\<close> and
  \<open>netProfit = totalRevenue - totalExpenses - corporateTax\<close>, from the unclamped
  difference. For every roster partner, \<open>revenue\<close> is the sum of the partner's first
  listed amount over the payments, \<open>expenseShare\<close> is the partner's entry of the expense
  map, \<open>taxableBase = revenue - expenseShare\<close> with no clamp,
  \<open>corporateTaxShare = taxableBase * rate\<close> when the base is positive and 0 otherwise,
  and \<open>netProfitShare = taxableBase - corporateTaxShare\<close>.
\<close>

theorem company_clamped_partner_unclamped:
  assumes "allListed (payments st)"
  shows "\<exists>r. calculateFinancialsFor roster rate st = Inr r \<and>
    totalRevenue (summary r) = sum_list (map pay_totalAmount (payments st)) \<and>
    totalExpenses (summary r) = sum_list (map exp_amount (expenses st)) \<and>
    taxableProfit (summary r) = max 0 (totalRevenue (summary r) - totalExpenses (summary r)) \<and>
    corporateTax (summary r) = taxableProfit (summary r) * rate \<and>
    netProfit (summary r) =
      totalRevenue (summary r) - totalExpenses (summary r) - corporateTax (summary r) \<and>
    length (partnerStats r) = length roster \<and>
    (\<forall>i < length roster.
       partnerId (partnerStats r ! i) = partner_id (roster ! i) \<and>
       revenue (partnerStats r ! i) = revenueOf (partner_id (roster ! i)) (payments st) \<and>
       expenseShare (partnerStats r ! i) =
         orZero (partnerExpenseMap roster (expenses st) (partner_id (roster ! i))) \<and>
       taxableBase (partnerStats r ! i) =
         revenue (partnerStats r ! i) - expenseShare (partnerStats r ! i) \<and>
       corporateTaxShare (partnerStats r ! i) =
         (if taxableBase (partnerStats r ! i) > 0 then taxableBase (partnerStats r ! i) * rate
          else 0) \<and>
       netProfitShare (partnerStats r ! i) =
         taxableBase (partnerStats r ! i) - corporateTaxShare (partnerStats r ! i))"
proof -
  let ?row = "\<lambda>q. partnerStatement rate st (partnerExpenseMap roster (expenses st)) q
                     (revenueOf (partner_id q) (payments st))"
  let ?r = "\<lparr>summary = companySummary rate st, partnerStats = map ?row roster\<rparr>"
  have run: "calculateFinancialsFor roster rate st = Inr ?r"
    using assms by (rule calculateFinancialsFor_listed)
  have company:
    "totalRevenue (summary ?r) = sum_list (map pay_totalAmount (payments st))"
    "totalExpenses (summary ?r) = sum_list (map exp_amount (expenses st))"
    "taxableProfit (summary ?r) = max 0 (totalRevenue (summary ?r) - totalExpenses (summary ?r))"
    "corporateTax (summary ?r) = taxableProfit (summary ?r) * rate"
    "netProfit (summary ?r) =
      totalRevenue (summary ?r) - totalExpenses (summary ?r) - corporateTax (summary ?r)"
    using summary_fields[of rate st] by simp_all
  have row: "partnerId (?row q) = partner_id q \<and>
       revenue (?row q) = revenueOf (partner_id q) (payments st) \<and>
       expenseShare (?row q) = orZero (partnerExpenseMap roster (expenses st) (partner_id q)) \<and>
       taxableBase (?row q) = revenue (?row q) - expenseShare (?row q) \<and>
       corporateTaxShare (?row q) =
         (if taxableBase (?row q) > 0 then taxableBase (?row q) * rate else 0) \<and>
       netProfitShare (?row q) = taxableBase (?row q) - corporateTaxShare (?row q)" for q
    using statement_tax_fields(1,2)[of rate st "partnerExpenseMap roster (expenses st)" q
        "revenueOf (partner_id q) (payments st)"]
    by (simp add: statement_fields)
  have partner: "\<forall>i < length roster.
       partnerId (partnerStats ?r ! i) = partner_id (roster ! i) \<and>
       revenue (partnerStats ?r ! i) = revenueOf (partner_id (roster ! i)) (payments st) \<and>
       expenseShare (partnerStats ?r ! i) =
         orZero (partnerExpenseMap roster (expenses st) (partner_id (roster ! i))) \<and>
       taxableBase (partnerStats ?r ! i) =
         revenue (partnerStats ?r ! i) - expenseShare (partnerStats ?r ! i) \<and>
       corporateTaxShare (partnerStats ?r ! i) =
         (if taxableBase (partnerStats ?r ! i) > 0 then taxableBase (partnerStats ?r ! i) * rate
          else 0) \<and>
       netProfitShare (partnerStats ?r ! i) =
         taxableBase (partnerStats ?r ! i) - corporateTaxShare (partnerStats ?r ! i)"
    using row by simp
  have len: "length (partnerStats ?r) = length roster" by simp
  from run company len partner show ?thesis by blast
qed

theorem company_clamped_partner_unclamped_witness:
  "allListed (payments clampLedger) \<and>
   (\<exists>r. calculateFinancials clampLedger = Inr r \<and>
      totalRevenue (summary r) = 50 \<and> totalExpenses (summary r) = 100 \<and>
      taxableProfit (summary r) = 0 \<and> corporateTax (summary r) = 0 \<and>
      netProfit (summary r) = - 50 \<and>
      map partnerId (partnerStats r) = [''p1'', ''p2'', ''p3''] \<and>
      map revenue (partnerStats r) = [50, 0, 0] \<and>
      map expenseShare (partnerStats r) = [0, 100, 0] \<and>
      map taxableBase (partnerStats r) = [50, - 100, 0] \<and>
      map corporateTaxShare (partnerStats r) = [5, 0, 0] \<and>
      map netProfitShare (partnerStats r) = [45, - 100, 0])"
proof -
  have listed: "allListed (payments clampLedger)"
    by (simp add: clampLedger_def engine_defs)
  show ?thesis
    using listed
      company_clamped_partner_unclamped [OF listed, where roster = PARTNERS and rate = TAX_RATE]
    by (simp add: clampLedger_def engine_defs)
qed

section \<open>Company totals\<close>

text \<open>
  C3. The claim holds of the sums but not of the engine when a payment has no distributions
  list. Such a ledger reaches the engine from an imported file or from
  \<^verbatim>\<open>localStorage\<close>, which are not validated. The expense step guards against the absent
  list (\<^verbatim>\<open>!exp.distributions\<close>); the revenue step calls \<^verbatim>\<open>p.distributions.find\<close>
  unguarded, so the call of the engine ends in a TypeError and returns no summary, although
  the two totals were already computed from the parent amounts.
\<close>

theorem absent_payment_distributions_type_error:
  "calculateFinancials unlistedLedger = Inl TypeError \<and>
   sumTotalAmount (payments unlistedLedger) = 100 \<and>
   sumAmount (expenses unlistedLedger) = 0"
  by (simp add: unlistedLedger_def engine_defs)

text \<open>
  On every ledger whose payments carry their distributions list (empty or not), the
  engine returns a summary in which \<open>totalRevenue\<close> is the sum of \<open>totalAmount\<close> over the
  payments and \<open>totalExpenses\<close> the sum of \<open>amount\<close> over the expenses; and both are
  unchanged when every payment's list is replaced by any other list and every expense's list
  by any other list or by none.
\<close>

theorem totals_from_parent_fields:
  assumes "allListed (payments st)"
  shows "\<exists>r r'. calculateFinancialsFor roster rate st = Inr r \<and>
     totalRevenue (summary r) = sum_list (map pay_totalAmount (payments st)) \<and>
     totalExpenses (summary r) = sum_list (map exp_amount (expenses st)) \<and>
     calculateFinancialsFor roster rate
       (st\<lparr>payments := map (\<lambda>p. p\<lparr>pay_distributions := Some (f p)\<rparr>) (payments st),
           expenses := map (\<lambda>e. e\<lparr>exp_distributions := g e\<rparr>) (expenses st)\<rparr>) = Inr r' \<and>
     totalRevenue (summary r') = totalRevenue (summary r) \<and>
     totalExpenses (summary r') = totalExpenses (summary r)"
proof -
  let ?st' = "st\<lparr>payments := map (\<lambda>p. p\<lparr>pay_distributions := Some (f p)\<rparr>) (payments st),
           expenses := map (\<lambda>e. e\<lparr>exp_distributions := g e\<rparr>) (expenses st)\<rparr>"
  let ?row = "\<lambda>t q. partnerStatement rate t (partnerExpenseMap roster (expenses t)) q
                       (revenueOf (partner_id q) (payments t))"
  let ?r = "\<lparr>summary = companySummary rate st, partnerStats = map (?row st) roster\<rparr>"
  let ?r' = "\<lparr>summary = companySummary rate ?st', partnerStats = map (?row ?st') roster\<rparr>"
  have run: "calculateFinancialsFor roster rate st = Inr ?r"
    using assms by (rule calculateFinancialsFor_listed)
  have "allListed (payments ?st')"
    by (simp add: allListed_def list_all_iff)
  then have run': "calculateFinancialsFor roster rate ?st' = Inr ?r'"
    by (rule calculateFinancialsFor_listed)
  have "totalRevenue (summary ?r) = sum_list (map pay_totalAmount (payments st))"
    "totalExpenses (summary ?r) = sum_list (map exp_amount (expenses st))"
    "totalRevenue (summary ?r') = totalRevenue (summary ?r)"
    "totalExpenses (summary ?r') = totalExpenses (summary ?r)"
    by (simp_all add: summary_fields comp_def)
  with run run' show ?thesis by blast
qed

theorem totals_from_parent_fields_witness:
  "allListed (payments lossLedger) \<and>
   (\<exists>r r'. calculateFinancials lossLedger = Inr r \<and>
      totalRevenue (summary r) = 50 \<and> totalExpenses (summary r) = 100 \<and>
      calculateFinancials
        (lossLedger\<lparr>payments := map (\<lambda>p. p\<lparr>pay_distributions := Some []\<rparr>) (payments lossLedger),
                    expenses := map (\<lambda>e. e\<lparr>exp_distributions := None\<rparr>) (expenses lossLedger)\<rparr>)
        = Inr r' \<and>
      totalRevenue (summary r') = 50 \<and> totalExpenses (summary r') = 100)"
proof -
  have listed: "allListed (payments lossLedger)"
    by (simp add: lossLedger_def engine_defs)
  show ?thesis
    using listed
      totals_from_parent_fields [OF listed, where roster = PARTNERS and rate = TAX_RATE
        and f = "\<lambda>p. []" and g = "\<lambda>e. None"]
    by (simp add: lossLedger_def engine_defs)
qed

section \<open>Expense shares\<close>



text \<open>
  C5. Appending an expense with a non-empty distributions list raises the \<open>expenseShare\<close>
  of each roster partner by the amounts the list gives to that partner, and to no one by a
  share of an equal split. A partner whom the list does not name keeps the whole statement
  unchanged.
\<close>

theorem explicit_distributions_override_fallback:
  assumes "allListed (payments st)" and "distinct (map partner_id roster)"
    and "exp_distributions e = Some ds" and "ds \<noteq> []"
  shows "\<exists>r r'. calculateFinancialsFor roster rate st = Inr r \<and>
     calculateFinancialsFor roster rate (st\<lparr>expenses := expenses st @ [e]\<rparr>) = Inr r' \<and>
     length (partnerStats r) = length roster \<and> length (partnerStats r') = length roster \<and>
     (\<forall>i < length roster.
        expenseShare (partnerStats r' ! i) =
          expenseShare (partnerStats r ! i) + listedFor (partner_id (roster ! i)) ds \<and>
        (partner_id (roster ! i) \<notin> set (map dist_partnerId ds) \<longrightarrow>
           partnerStats r' ! i = partnerStats r ! i))"
proof -
  let ?st' = "st\<lparr>expenses := expenses st @ [e]\<rparr>"
  let ?row = "\<lambda>t q. partnerStatement rate t (partnerExpenseMap roster (expenses t)) q
                       (revenueOf (partner_id q) (payments t))"
  let ?r = "\<lparr>summary = companySummary rate st, partnerStats = map (?row st) roster\<rparr>"
  let ?r' = "\<lparr>summary = companySummary rate ?st', partnerStats = map (?row ?st') roster\<rparr>"
  have run: "calculateFinancialsFor roster rate st = Inr ?r"
    using assms(1) by (rule calculateFinancialsFor_listed)
  have run': "calculateFinancialsFor roster rate ?st' = Inr ?r'"
    by (rule calculateFinancialsFor_listed) (simp add: assms(1))
  have share: "expenseShare (?row ?st' q) = expenseShare (?row st q) + listedFor (partner_id q) ds"
    if "q \<in> set roster" for q
    using that assms(2-4) by (simp add: expenseShare_roster expenseContribution_listed)
  have same: "?row ?st' q = ?row st q"
    if "q \<in> set roster" and "partner_id q \<notin> set (map dist_partnerId ds)" for q
  proof -
    have "expenseShare (?row ?st' q) = expenseShare (?row st q)"
      using share[OF that(1)] listedFor_unnamed[OF that(2)] by simp
    then have "orZero (partnerExpenseMap roster (expenses ?st') (partner_id q)) =
        orZero (partnerExpenseMap roster (expenses st) (partner_id q))"
      by (simp add: statement_fields)
    then show ?thesis by (simp add: partnerStatement_def)
  qed
  have "\<forall>i < length roster.
        expenseShare (partnerStats ?r' ! i) =
          expenseShare (partnerStats ?r ! i) + listedFor (partner_id (roster ! i)) ds \<and>
        (partner_id (roster ! i) \<notin> set (map dist_partnerId ds) \<longrightarrow>
           partnerStats ?r' ! i = partnerStats ?r ! i)"
    using share same by simp
  moreover have "length (partnerStats ?r) = length roster" "length (partnerStats ?r') = length roster"
    by simp_all
  ultimately show ?thesis using run run' by blast
qed

theorem explicit_distributions_override_fallback_witness:
  "allListed (payments lossLedger) \<and> distinct (map partner_id PARTNERS) \<and>
   (\<exists>r r'. calculateFinancials lossLedger = Inr r \<and>
      calculateFinancials
        (addExpense ''3'' ''laptop'' 100 ''2024-01-03'' ''equipment''
           [\<lparr>dist_partnerId = ''p1'', dist_amount = 100\<rparr>] lossLedger) = Inr r' \<and>
      map expenseShare (partnerStats r) = [100 / 3, 100 / 3, 100 / 3] \<and>
      map expenseShare (partnerStats r') = [400 / 3, 100 / 3, 100 / 3] \<and>
      partnerStats r' ! 1 = partnerStats r ! 1 \<and> partnerStats r' ! 2 = partnerStats r ! 2)"
proof -
  have listed: "allListed (payments lossLedger)"
    by (simp add: lossLedger_def engine_defs)
  have ids: "distinct (map partner_id PARTNERS)"
    by (simp add: PARTNERS_def)
  show ?thesis
    using listed ids
      explicit_distributions_override_fallback [OF listed ids, where rate = TAX_RATE
        and ds = "[\<lparr>dist_partnerId = ''p1'', dist_amount = 100\<rparr>]"
        and e = "\<lparr>exp_id = ''3'', exp_date = ''2024-01-03'', exp_description = ''laptop'',
                   exp_amount = 100, exp_category = ''equipment'',
                   exp_distributions = Some [\<lparr>dist_partnerId = ''p1'', dist_amount = 100\<rparr>]\<rparr>"]
    by (simp add: lossLedger_def engine_defs)
qed

section \<open>Dividends and balance\<close>

text \<open>
  C6. For every roster partner \<open>balance = netProfitShare - dividendsTakenGross\<close>, where
  \<open>dividendsTakenGross\<close> is the sum of \<open>grossAmount\<close> over the dividend records of that
  partner. Nothing clamps the balance and the engine returns a result: a net profit share
  of 1000 and one dividend of 1200 give the balance - 200.
\<close>

theorem balance_net_minus_dividends:
  assumes "allListed (payments st)"
  shows "\<exists>r. calculateFinancialsFor roster rate st = Inr r \<and>
     length (partnerStats r) = length roster \<and>
     (\<forall>i < length roster.
        balance (partnerStats r ! i) =
          netProfitShare (partnerStats r ! i) - dividendsTakenGross (partnerStats r ! i) \<and>
        dividendsTakenGross (partnerStats r ! i) =
          sum_list (map div_grossAmount
            (filter (\<lambda>d. div_partnerId d = partner_id (roster ! i)) (dividends st))))"
proof -
  let ?row = "\<lambda>q. partnerStatement rate st (partnerExpenseMap roster (expenses st)) q
                       (revenueOf (partner_id q) (payments st))"
  let ?r = "\<lparr>summary = companySummary rate st, partnerStats = map ?row roster\<rparr>"
  have run: "calculateFinancialsFor roster rate st = Inr ?r"
    using assms by (rule calculateFinancialsFor_listed)
  have "\<forall>i < length roster.
        balance (partnerStats ?r ! i) =
          netProfitShare (partnerStats ?r ! i) - dividendsTakenGross (partnerStats ?r ! i) \<and>
        dividendsTakenGross (partnerStats ?r ! i) =
          sum_list (map div_grossAmount
            (filter (\<lambda>d. div_partnerId d = partner_id (roster ! i)) (dividends st)))"
    using statement_tax_fields(3) by (simp add: statement_fields dividendsTakenOf_sum_list)
  moreover have "length (partnerStats ?r) = length roster" by simp
  ultimately show ?thesis using run by blast
qed

theorem balance_net_minus_dividends_witness:
  "allListed (payments drawdownLedger) \<and>
   (\<exists>r. calculateFinancials drawdownLedger = Inr r \<and>
      map netProfitShare (partnerStats r) = [1000, 0, 0] \<and>
      map dividendsTakenGross (partnerStats r) = [1200, 0, 0] \<and>
      map balance (partnerStats r) = [- 200, 0, 0])"
proof -
  have listed: "allListed (payments drawdownLedger)"
    by (simp add: drawdownLedger_def engine_defs)
  show ?thesis
    using listed balance_net_minus_dividends [OF listed, where roster = PARTNERS and rate = TAX_RATE]
    by (simp add: drawdownLedger_def engine_defs)
qed



section \<open>Distributions that name no roster partner\<close>

text \<open>
  C8. On a ledger whose payments carry their list, with a roster of distinct ids, the engine
  returns a result. Its company totals are the full sums of the parent amounts. Every
  partner's \<open>revenue\<close> and \<open>expenseShare\<close> are computed from the entries that name a
  roster partner (\<open>rosterEntries\<close>) alone, so no amount of an entry naming another id
  reaches a statement. The equal split is decided on the list as it is: a non-empty list
  that names only other ids is not split equally and adds nothing to any partner.
\<close>

theorem foreign_entries_never_surface:
  assumes "allListed (payments st)" and "distinct (map partner_id roster)"
  shows "\<exists>r. calculateFinancialsFor roster rate st = Inr r \<and>
     totalRevenue (summary r) = sum_list (map pay_totalAmount (payments st)) \<and>
     totalExpenses (summary r) = sum_list (map exp_amount (expenses st)) \<and>
     map revenue (partnerStats r) =
       map (\<lambda>q. sum_list (map (\<lambda>p. distAmountFor (partner_id q)
                  (rosterEntries roster (the (pay_distributions p)))) (payments st))) roster \<and>
     map expenseShare (partnerStats r) =
       map (\<lambda>q. sum_list (map (\<lambda>e.
                  if noDistributions e then exp_amount e / real (length roster)
                  else listedFor (partner_id q) (rosterEntries roster (the (exp_distributions e))))
                (expenses st))) roster"
proof -
  let ?row = "\<lambda>q. partnerStatement rate st (partnerExpenseMap roster (expenses st)) q
                       (revenueOf (partner_id q) (payments st))"
  let ?r = "\<lparr>summary = companySummary rate st, partnerStats = map ?row roster\<rparr>"
  have run: "calculateFinancialsFor roster rate st = Inr ?r"
    using assms(1) by (rule calculateFinancialsFor_listed)
  have rev: "revenue (?row q) = sum_list (map (\<lambda>p. distAmountFor (partner_id q)
                  (rosterEntries roster (the (pay_distributions p)))) (payments st))"
    if "q \<in> set roster" for q
    using that by (simp add: statement_fields revenueOf_def distAmountFor_rosterEntries)
  have shr: "expenseShare (?row q) = sum_list (map (\<lambda>e.
                  if noDistributions e then exp_amount e / real (length roster)
                  else listedFor (partner_id q) (rosterEntries roster (the (exp_distributions e))))
                (expenses st))"
    if "q \<in> set roster" for q
  proof -
    have "expenseContribution roster (partner_id q) = (\<lambda>e.
                  if noDistributions e then exp_amount e / real (length roster)
                  else listedFor (partner_id q) (rosterEntries roster (the (exp_distributions e))))"
      using that by (auto simp: expenseContribution_def listedFor_rosterEntries)
    then show ?thesis using expenseShare_roster[OF assms(2) that] by simp
  qed
  have "map revenue (partnerStats ?r) =
       map (\<lambda>q. sum_list (map (\<lambda>p. distAmountFor (partner_id q)
                  (rosterEntries roster (the (pay_distributions p)))) (payments st))) roster"
    using rev by simp
  moreover have "map expenseShare (partnerStats ?r) =
       map (\<lambda>q. sum_list (map (\<lambda>e.
                  if noDistributions e then exp_amount e / real (length roster)
                  else listedFor (partner_id q) (rosterEntries roster (the (exp_distributions e))))
                (expenses st))) roster"
    using shr by simp
  moreover have "totalRevenue (summary ?r) = sum_list (map pay_totalAmount (payments st))"
    "totalExpenses (summary ?r) = sum_list (map exp_amount (expenses st))"
    by (simp_all add: summary_fields)
  ultimately show ?thesis using run by blast
qed

theorem foreign_entries_never_surface_witness:
  "allListed (payments foreignLedger) \<and> distinct (map partner_id PARTNERS) \<and>
   (\<exists>r. calculateFinancials foreignLedger = Inr r \<and>
      totalRevenue (summary r) = 100 \<and> totalExpenses (summary r) = 60 \<and>
      map revenue (partnerStats r) = [60, 0, 0] \<and>
      map expenseShare (partnerStats r) = [0, 0, 0])"
proof -
  have listed: "allListed (payments foreignLedger)"
    by (simp add: foreignLedger_def engine_defs)
  have ids: "distinct (map partner_id PARTNERS)"
    by (simp add: PARTNERS_def)
  show ?thesis
    using listed ids foreign_entries_never_surface [OF listed ids, where rate = TAX_RATE]
    by (simp add: foreignLedger_def engine_defs)
qed

section \<open>Duplicate distributions\<close>

text \<open>
  C10. Let a distributions list name a roster partner first in its entry \<open>d\<close>, and possibly
  again later. Appended to the ledger on a payment, the list raises that partner's
  \<open>revenue\<close> by the amount of \<open>d\<close> alone: the first entry wins. Appended on an expense, it
  raises the partner's \<open>expenseShare\<close> by the amount of \<open>d\<close> plus the amounts of all the
  later entries for the partner: duplicates are summed.
\<close>

theorem duplicates_first_for_payment_sum_for_expense:
  assumes "allListed (payments st)" and "distinct (map partner_id roster)"
    and "i < length roster"
    and "dist_partnerId d = partner_id (roster ! i)"
    and "\<forall>x \<in> set pre. dist_partnerId x \<noteq> partner_id (roster ! i)"
    and "pay_distributions p = Some (pre @ d # post)"
    and "exp_distributions e = Some (pre @ d # post)"
  shows "\<exists>r rp re. calculateFinancialsFor roster rate st = Inr r \<and>
     calculateFinancialsFor roster rate (st\<lparr>payments := payments st @ [p]\<rparr>) = Inr rp \<and>
     calculateFinancialsFor roster rate (st\<lparr>expenses := expenses st @ [e]\<rparr>) = Inr re \<and>
     revenue (partnerStats rp ! i) = revenue (partnerStats r ! i) + dist_amount d \<and>
     expenseShare (partnerStats re ! i) =
       expenseShare (partnerStats r ! i) + dist_amount d + listedFor (partner_id (roster ! i)) post"
proof -
  let ?k = "partner_id (roster ! i)"
  let ?sp = "st\<lparr>payments := payments st @ [p]\<rparr>" and ?se = "st\<lparr>expenses := expenses st @ [e]\<rparr>"
  let ?row = "\<lambda>t q. partnerStatement rate t (partnerExpenseMap roster (expenses t)) q
                       (revenueOf (partner_id q) (payments t))"
  let ?r = "\<lparr>summary = companySummary rate st, partnerStats = map (?row st) roster\<rparr>"
  let ?rp = "\<lparr>summary = companySummary rate ?sp, partnerStats = map (?row ?sp) roster\<rparr>"
  let ?re = "\<lparr>summary = companySummary rate ?se, partnerStats = map (?row ?se) roster\<rparr>"
  have run: "calculateFinancialsFor roster rate st = Inr ?r"
    using assms(1) by (rule calculateFinancialsFor_listed)
  have "allListed (payments ?sp)" using assms(1,6) by (simp add: allListed_def)
  then have runp: "calculateFinancialsFor roster rate ?sp = Inr ?rp"
    by (rule calculateFinancialsFor_listed)
  have rune: "calculateFinancialsFor roster rate ?se = Inr ?re"
    by (rule calculateFinancialsFor_listed) (simp add: assms(1))
  have mem: "roster ! i \<in> set roster" using assms(3) by simp
  have "find (\<lambda>x. dist_partnerId x = ?k) (pre @ d # post) = Some d"
    using assms(4,5) by (induction pre) auto
  then have first: "distAmountFor ?k (pre @ d # post) = dist_amount d"
    by (simp add: distAmountFor_def)
  have "filter (\<lambda>x. dist_partnerId x = ?k) pre = []"
    using assms(5) by (auto simp: filter_empty_conv)
  then have all: "listedFor ?k (pre @ d # post) = dist_amount d + listedFor ?k post"
    using assms(4) by (simp add: listedFor_def)
  have "revenue (partnerStats ?rp ! i) = revenue (partnerStats ?r ! i) + dist_amount d"
    using assms(3,6) first by (simp add: statement_fields revenueOf_def)
  moreover have "expenseShare (partnerStats ?re ! i) =
       expenseShare (partnerStats ?r ! i) + dist_amount d + listedFor ?k post"
    using assms(3,7) all mem
    by (simp add: expenseShare_roster[OF assms(2)] expenseContribution_listed)
  ultimately show ?thesis using run runp rune by blast
qed

theorem duplicates_first_for_payment_sum_for_expense_witness:
  "allListed (payments INITIAL_STATE) \<and> distinct (map partner_id PARTNERS) \<and>
   0 < length PARTNERS \<and> partner_id (PARTNERS ! 0) = ''p1'' \<and>
   (\<exists>r rp re. calculateFinancials INITIAL_STATE = Inr r \<and>
      calculateFinancials
        (addPayment ''1'' ''a'' 30 ''2024-01-01'' ''invoice''
           [\<lparr>dist_partnerId = ''p1'', dist_amount = 10\<rparr>,
            \<lparr>dist_partnerId = ''p1'', dist_amount = 20\<rparr>] INITIAL_STATE) = Inr rp \<and>
      calculateFinancials
        (addExpense ''1'' ''rent'' 30 ''2024-01-01'' ''rent''
           [\<lparr>dist_partnerId = ''p1'', dist_amount = 10\<rparr>,
            \<lparr>dist_partnerId = ''p1'', dist_amount = 20\<rparr>] INITIAL_STATE) = Inr re \<and>
      revenue (partnerStats r ! 0) = 0 \<and> expenseShare (partnerStats r ! 0) = 0 \<and>
      revenue (partnerStats rp ! 0) = 10 \<and> expenseShare (partnerStats re ! 0) = 30)"
proof -
  have listed: "allListed (payments INITIAL_STATE)"
    by (simp add: engine_defs)
  have ids: "distinct (map partner_id PARTNERS)"
    by (simp add: PARTNERS_def)
  have pos: "0 < length PARTNERS" and first: "partner_id (PARTNERS ! 0) = ''p1''"
    by (simp_all add: PARTNERS_def)
  show ?thesis
    using listed ids pos first
      duplicates_first_for_payment_sum_for_expense [OF listed ids pos, where rate = TAX_RATE
        and d = "\<lparr>dist_partnerId = ''p1'', dist_amount = 10\<rparr>" and pre = "[]"
        and post = "[\<lparr>dist_partnerId = ''p1'', dist_amount = 20\<rparr>]"
        and p = "\<lparr>pay_id = ''1'', pay_projectId = ''a'', pay_date = ''2024-01-01'',
                   pay_description = ''invoice'', pay_totalAmount = 30,
                   pay_distributions = Some [\<lparr>dist_partnerId = ''p1'', dist_amount = 10\<rparr>,
                                             \<lparr>dist_partnerId = ''p1'', dist_amount = 20\<rparr>]\<rparr>"
        and e = "\<lparr>exp_id = ''1'', exp_date = ''2024-01-01'', exp_description = ''rent'',
                   exp_amount = 30, exp_category = ''rent'',
                   exp_distributions = Some [\<lparr>dist_partnerId = ''p1'', dist_amount = 10\<rparr>,
                                             \<lparr>dist_partnerId = ''p1'', dist_amount = 20\<rparr>]\<rparr>"]
    by (simp add: engine_defs)
qed

end
